theory Spec2Isabelle
  imports Complex_Main
begin

section \<open>Data model of \<open>signal_interpolate\<close>\<close>

text \<open>
  \<open>x_values\<close>, \<open>y_values\<close> and an explicit \<open>x_new\<close> are sequences of numbers; they are
  lists of reals here, so comparisons and the arithmetic of the target grid are exact.
  The parameter \<open>x_new\<close> is dynamically typed in the source: its default \<open>None\<close>, a
  Python \<open>int\<close> (the branch \<open>isinstance(x_new, int)\<close>), or a sequence.
\<close>

datatype target_grid = XNone | XInt int | XSeq "real list"

text \<open>
  \<open>method\<close> is a string, an integer spline order, or any other object; only a string
  can select the monotone-cubic kernel.
\<close>

datatype interp_method = MStr string | MInt int | MOther

text \<open>
  The exceptions that can leave \<open>signal_interpolate\<close>: the \<open>ValueError\<close> of the sanity
  check, the \<open>TypeError\<close> of \<open>len(None)\<close>, the \<open>IndexError\<close> of indexing an empty
  sequence, an exception raised by a kernel constructor of the interpolation library
  (carried unchanged, identified by its text), and the \<open>ValueError\<close> of \<open>numpy.linspace\<close> for a
  negative number of samples.
\<close>

datatype error =
    LengthMismatch
  | TypeError
  | IndexError
  | KernelError string
  | LinspaceError

section \<open>The interpolation library\<close>

text \<open>
  The kernels themselves are not part of the program: \<open>scipy.interpolate\<close> provides
  them. They are parameters of the model. A constructor either raises (\<open>Inl\<close>) or
  yields the interpolant, a function on positions.
  \<open>PchipInterpolator xs ys extrapolate\<close> is the monotone piecewise-cubic Hermite
  interpolant; \<open>interp1d_kernel xs ys kind\<close> is the interpolant of the given kind
  inside the range of the samples.
\<close>

record scipy =
  PchipInterpolator :: "real list \<Rightarrow> real list \<Rightarrow> bool \<Rightarrow> string + (real \<Rightarrow> real)"
  interp1d_kernel :: "real list \<Rightarrow> real list \<Rightarrow> interp_method \<Rightarrow> string + (real \<Rightarrow> real)"

text \<open>
  \<open>interp1d(x, y, kind=kind, bounds_error=False, fill_value=([below], [above]))\<close>:
  the library sorts the sample positions, and with \<open>bounds_error=False\<close> and a pair
  as \<open>fill_value\<close> a position below the smallest sample position evaluates to the
  first fill value, a position above the largest one to the second, and any other
  position to the kernel.
\<close>

definition interp1d ::
  "scipy \<Rightarrow> real list \<Rightarrow> real list \<Rightarrow> interp_method \<Rightarrow> real \<Rightarrow> real \<Rightarrow> string + (real \<Rightarrow> real)"
where
  "interp1d lib x y kind fill_below fill_above =
     (case interp1d_kernel lib x y kind of
        Inl e \<Rightarrow> Inl e
      | Inr k \<Rightarrow>
          Inr (\<lambda>p. if p < hd (sort x) then fill_below
                    else if last (sort x) < p then fill_above
                    else k p))"

text \<open>
  \<open>numpy.linspace(start, stop, num)\<close> with the default \<open>endpoint=True\<close>, in exact
  arithmetic: a negative \<open>num\<close> raises, \<open>num = 0\<close> is the empty array, \<open>num = 1\<close> is
  the start alone, and otherwise sample \<open>i\<close> is \<open>start + i * (stop - start) / (num - 1)\<close>.
\<close>

definition linspace :: "real \<Rightarrow> real \<Rightarrow> int \<Rightarrow> error + real list" where
  "linspace start stop num =
     (if num < 0 then Inl LinspaceError
      else if num = 1 then Inr [start]
      else Inr (map (\<lambda>i. start + real i * ((stop - start) / real_of_int (num - 1)))
                    [0..<nat num]))"

section \<open>Python's indexing and strings\<close>

text \<open>\<open>v[0]\<close> and \<open>v[-1]\<close>: both raise \<open>IndexError\<close> on an empty sequence.\<close>

definition py_first :: "'a list \<Rightarrow> error + 'a" where
  "py_first v = (case v of [] \<Rightarrow> Inl IndexError | a # _ \<Rightarrow> Inr a)"

definition py_last :: "'a list \<Rightarrow> error + 'a" where
  "py_last v = (if v = [] then Inl IndexError else Inr (last v))"

text \<open>\<open>str.lower()\<close> on the letters \<open>A\<close> to \<open>Z\<close>; every other character is kept.\<close>

definition lower_char :: "char \<Rightarrow> char" where
  "lower_char c =
     (case map_of (zip ''ABCDEFGHIJKLMNOPQRSTUVWXYZ'' ''abcdefghijklmnopqrstuvwxyz'') c of
        None \<Rightarrow> c
      | Some l \<Rightarrow> l)"

definition lower :: "string \<Rightarrow> string" where
  "lower s = map lower_char s"

section \<open>\<open>signal_interpolate\<close>\<close>

text \<open>\<open>isinstance(method, str) and method.lower() == "monotone_cubic"\<close>\<close>

fun is_monotone_cubic :: "interp_method \<Rightarrow> bool" where
  "is_monotone_cubic (MStr s) = (lower s = ''monotone_cubic'')"
| "is_monotone_cubic (MInt k) = False"
| "is_monotone_cubic MOther = False"

text \<open>
  The check after the sanity check: does the call return \<open>y_values\<close> at once?
  An \<open>int\<close> is compared with \<open>len(x_values)\<close>; of anything else the length is taken,
  which raises \<open>TypeError\<close> for \<open>None\<close>.
\<close>

fun short_circuit :: "real list \<Rightarrow> target_grid \<Rightarrow> error + bool" where
  "short_circuit x_values (XInt n) = Inr (int (length x_values) = n)"
| "short_circuit x_values (XSeq s) = Inr (length x_values = length s)"
| "short_circuit x_values XNone = Inl TypeError"

text \<open>
  The creation of the interpolation function. In the second branch the fill values
  \<open>y_values[0]\<close> and \<open>y_values[-1]\<close> are evaluated before the constructor is called.
\<close>

definition interpolation_function ::
  "scipy \<Rightarrow> real list \<Rightarrow> real list \<Rightarrow> interp_method \<Rightarrow> error + (real \<Rightarrow> real)"
where
  "interpolation_function lib x_values y_values method =
     (if is_monotone_cubic method then
        (case PchipInterpolator lib x_values y_values True of
           Inl e \<Rightarrow> Inl (KernelError e)
         | Inr f \<Rightarrow> Inr f)
      else
        (case py_first y_values of
           Inl e \<Rightarrow> Inl e
         | Inr y0 \<Rightarrow>
            (case py_last y_values of
               Inl e \<Rightarrow> Inl e
             | Inr yl \<Rightarrow>
                (case interp1d lib x_values y_values method y0 yl of
                   Inl e \<Rightarrow> Inl (KernelError e)
                 | Inr f \<Rightarrow> Inr f))))"

text \<open>
  The positions at which the interpolation function is applied: an \<open>int\<close> is
  replaced by \<open>np.linspace(x_values[0], x_values[-1], x_new)\<close>, a sequence is used
  as it is.
\<close>

fun resolve_x_new :: "real list \<Rightarrow> target_grid \<Rightarrow> error + real list" where
  "resolve_x_new x_values (XInt n) =
     (case py_first x_values of
        Inl e \<Rightarrow> Inl e
      | Inr a \<Rightarrow>
         (case py_last x_values of
            Inl e \<Rightarrow> Inl e
          | Inr b \<Rightarrow> linspace a b n))"
| "resolve_x_new x_values (XSeq s) = Inr s"
| "resolve_x_new x_values XNone = Inl TypeError"

definition signal_interpolate ::
  "scipy \<Rightarrow> real list \<Rightarrow> real list \<Rightarrow> target_grid \<Rightarrow> interp_method \<Rightarrow> error + real list"
where
  "signal_interpolate lib x_values y_values x_new method =
     (if length x_values \<noteq> length y_values then Inl LengthMismatch
      else
        (case short_circuit x_values x_new of
           Inl e \<Rightarrow> Inl e
         | Inr True \<Rightarrow> Inr y_values
         | Inr False \<Rightarrow>
            (case interpolation_function lib x_values y_values method of
               Inl e \<Rightarrow> Inl e
             | Inr f \<Rightarrow>
                (case resolve_x_new x_values x_new of
                   Inl e \<Rightarrow> Inl e
                 | Inr grid \<Rightarrow> Inr (map f grid)))))"

section \<open>\<open>signal_rate\<close>\<close>

text \<open>
  \<open>signal_period\<close> lives in another module and is a parameter: it raises or returns
  the period array. The elements of that array are floating-point numbers; their type
  \<open>'f\<close> and numpy's division of the integer 60 by an element are parameters too, so
  nothing below depends on what HOL's own division does at zero.
\<close>

definition signal_rate ::
  "('p \<Rightarrow> int \<Rightarrow> int option \<Rightarrow> interp_method \<Rightarrow> 'x + 'f list) \<Rightarrow> (int \<Rightarrow> 'f \<Rightarrow> 'f) \<Rightarrow>
   'p \<Rightarrow> int \<Rightarrow> int option \<Rightarrow> interp_method \<Rightarrow> 'x + 'f list"
where
  "signal_rate signal_period true_divide peaks sampling_rate desired_length interpolation_method =
     (case signal_period peaks sampling_rate desired_length interpolation_method of
        Inl e \<Rightarrow> Inl e
      | Inr period \<Rightarrow> Inr (map (true_divide 60) period))"

section \<open>A concrete library instance\<close>

text \<open>
  An instance of the library interface on which the model can be evaluated. On two
  distinct sample positions both the monotone-cubic interpolant and the linear one are
  the straight line through the two samples; this instance builds nothing else and
  raises for every other request.
\<close>

definition two_point_line :: "real list \<Rightarrow> real list \<Rightarrow> string + (real \<Rightarrow> real)" where
  "two_point_line xs ys =
     (case (xs, ys) of
        ([x0, x1], [y0, y1]) \<Rightarrow>
          if x0 = x1 then Inl ''duplicate positions''
          else Inr (\<lambda>p. y0 + (p - x0) * ((y1 - y0) / (x1 - x0)))
      | _ \<Rightarrow> Inl ''unsupported number of samples'')"

definition line_scipy :: "scipy" where
  "line_scipy =
     \<lparr> PchipInterpolator = (\<lambda>xs ys extrapolate. two_point_line xs ys),
       interp1d_kernel = (\<lambda>xs ys kind.
          if kind = MStr ''linear'' then two_point_line xs ys
          else Inl ''unsupported kind'') \<rparr>"


section \<open>The target grid as the specification words it\<close>

text \<open>
  The specification describes the grid of an integer target \<open>N\<close> as \<open>N\<close> evenly spaced
  positions from the first to the last sample position. This is that description, written
  down on its own so that it can be compared with what \<open>linspace\<close> returns.
\<close>

definition spec_even_grid :: "real \<Rightarrow> real \<Rightarrow> int \<Rightarrow> real list" where
  "spec_even_grid a b n = map (\<lambda>i. a + real i * ((b - a) / real_of_int (n - 1))) [0..<nat n]"

section \<open>Auxiliary facts\<close>






lemma signal_interpolate_equal_count:
  "length x_values = length y_values \<Longrightarrow> short_circuit x_values x_new = Inr True \<Longrightarrow>
   signal_interpolate lib x_values y_values x_new method = Inr y_values"
  by (simp add: signal_interpolate_def)

lemma signal_interpolate_other_count:
  "length x_values = length y_values \<Longrightarrow> short_circuit x_values x_new = Inr False \<Longrightarrow>
   signal_interpolate lib x_values y_values x_new method =
     (case interpolation_function lib x_values y_values method of
        Inl e \<Rightarrow> Inl e
      | Inr f \<Rightarrow>
         (case resolve_x_new x_values x_new of
            Inl e \<Rightarrow> Inl e
          | Inr grid \<Rightarrow> Inr (map f grid)))"
  by (simp add: signal_interpolate_def)

text \<open>Indexing a non-empty sequence, and the interpolation function of the second branch.\<close>

lemma py_first_nonempty: "v \<noteq> [] \<Longrightarrow> py_first v = Inr (v ! 0)"
  by (cases v) (simp_all add: py_first_def)

lemma py_last_nonempty: "v \<noteq> [] \<Longrightarrow> py_last v = Inr (last v)"
  by (simp add: py_last_def)

lemma interpolation_function_interp1d:
  assumes "\<not> is_monotone_cubic method" and "y_values \<noteq> []"
  shows "interpolation_function lib x_values y_values method =
     (case interp1d_kernel lib x_values y_values method of
        Inl e \<Rightarrow> Inl (KernelError e)
      | Inr k \<Rightarrow>
          Inr (\<lambda>p. if p < hd (sort x_values) then y_values ! 0
                    else if last (sort x_values) < p then last y_values
                    else k p))"
  using assms
  by (simp add: interpolation_function_def py_first_nonempty py_last_nonempty interp1d_def
        split: sum.splits)

text \<open>What \<open>linspace\<close> returns for two or more samples is the evenly spaced grid.\<close>

lemma linspace_spec_even_grid: "2 \<le> n \<Longrightarrow> linspace a b n = Inr (spec_even_grid a b n)"
  by (simp add: linspace_def spec_even_grid_def)

lemma spec_even_grid_length: "0 \<le> n \<Longrightarrow> int (length (spec_even_grid a b n)) = n"
  by (simp add: spec_even_grid_def)

lemma spec_even_grid_nth:
  "i < nat n \<Longrightarrow> spec_even_grid a b n ! i = a + real i * ((b - a) / real_of_int (n - 1))"
  by (simp add: spec_even_grid_def)

lemma spec_even_grid_first: "2 \<le> n \<Longrightarrow> spec_even_grid a b n ! 0 = a"
  by (simp add: spec_even_grid_nth)

lemma spec_even_grid_last:
  assumes "2 \<le> n"
  shows "last (spec_even_grid a b n) = b"
proof -
  have ne: "spec_even_grid a b n \<noteq> []" using assms by (simp add: spec_even_grid_def)
  have len: "length (spec_even_grid a b n) = nat n" by (simp add: spec_even_grid_def)
  have r: "real (nat n - 1) = real_of_int (n - 1)" using assms by (simp add: of_nat_diff)
  have "last (spec_even_grid a b n) = spec_even_grid a b n ! (nat n - 1)"
    using ne len by (simp add: last_conv_nth)
  also have "\<dots> = a + real (nat n - 1) * ((b - a) / real_of_int (n - 1))"
    using assms by (intro spec_even_grid_nth) simp
  also have "\<dots> = b" unfolding r using assms by simp
  finally show ?thesis .
qed

lemma spec_even_grid_within:
  assumes "2 \<le> n" and "i < nat n"
  shows "min a b \<le> spec_even_grid a b n ! i \<and> spec_even_grid a b n ! i \<le> max a b"
proof -
  define t where "t = real i / real_of_int (n - 1)"
  have pos: "0 < real_of_int (n - 1)" using assms(1) by simp
  have "real i \<le> real_of_int (n - 1)" using assms by simp
  then have t: "0 \<le> t" "t \<le> 1" using pos by (simp_all add: t_def)
  have g: "spec_even_grid a b n ! i = a + t * (b - a)"
    by (simp add: spec_even_grid_nth [OF assms(2)] t_def)
  show ?thesis
  proof (cases "a \<le> b")
    case True
    then have "0 \<le> t * (b - a)" "t * (b - a) \<le> b - a"
      using t by (simp_all add: mult_left_le_one_le)
    then show ?thesis using True g by simp
  next
    case False
    then have "0 \<le> t * (a - b)" and "t * (a - b) \<le> a - b"
      using t by (simp_all add: mult_left_le_one_le)
    moreover have "spec_even_grid a b n ! i = a - t * (a - b)"
      unfolding g by (simp add: algebra_simps)
    ultimately show ?thesis using False by linarith
  qed
qed

section \<open>The sanity check and the identity short-circuit\<close>

text \<open>
  C1. For \<open>x_values\<close> and \<open>y_values\<close> of equal length and a target whose count
  equals \<open>len(x_values)\<close> (the integer \<open>len(x_values)\<close> itself, or a sequence of that
  length), \<open>signal_interpolate\<close> returns \<open>y_values\<close> unchanged, for every method and
  every library, whatever the positions in the sequence are: only the count is compared.
\<close>

theorem identity_short_circuit:
  assumes "length x_values = length y_values"
    and "x_new = XInt (int (length x_values)) \<or> (\<exists>s. x_new = XSeq s \<and> length s = length x_values)"
  shows "signal_interpolate lib x_values y_values x_new method = Inr y_values"
  using assms by (auto simp: signal_interpolate_equal_count)

theorem identity_short_circuit_witness:
  "signal_interpolate line_scipy [0, 1] [3, 4] (XSeq [5, 6]) (MStr ''linear'') = Inr [3, 4]
   \<and> signal_interpolate line_scipy [0, 1] [3, 4] (XInt 2) (MStr ''cubic'') = Inr [3, 4]"
  using identity_short_circuit [of "[0, 1]" "[3, 4]" "XSeq [5, 6]" line_scipy "MStr ''linear''"]
        identity_short_circuit [of "[0, 1]" "[3, 4]" "XInt 2" line_scipy "MStr ''cubic''"]
  by simp

text \<open>
  C2. For \<open>x_values\<close> and \<open>y_values\<close> of different lengths \<open>signal_interpolate\<close> raises
  the length-mismatch error for every method and every \<open>x_new\<close>. The check comes first:
  the result does not depend on the target (not even on \<open>None\<close>, whose length cannot be
  taken) nor on whether a kernel could be built.
\<close>

theorem length_mismatch_raises_first:
  "length x_values \<noteq> length y_values \<Longrightarrow>
   signal_interpolate lib x_values y_values x_new method = Inl LengthMismatch"
  by (simp add: signal_interpolate_def)

theorem length_mismatch_raises_first_witness:
  "signal_interpolate line_scipy [0, 1, 2] [3, 4] XNone MOther = Inl LengthMismatch"
  using length_mismatch_raises_first [of "[0, 1, 2]" "[3, 4]" line_scipy XNone MOther]
  by simp

text \<open>
  C10. For \<open>x_values\<close> and \<open>y_values\<close> of equal length, a call that leaves \<open>x_new\<close> at
  its default \<open>None\<close> fails with \<open>TypeError\<close>, raised by \<open>len(x_new)\<close> in the
  short-circuit check, for every method and every library.
\<close>

theorem none_target_type_error:
  "length x_values = length y_values \<Longrightarrow>
   signal_interpolate lib x_values y_values XNone method = Inl TypeError"
  by (simp add: signal_interpolate_def)

theorem none_target_type_error_witness:
  "signal_interpolate line_scipy [0, 1] [3, 4] XNone (MStr ''quadratic'') = Inl TypeError"
  using none_target_type_error [of "[0, 1]" "[3, 4]" line_scipy "MStr ''quadratic''"]
  by simp

text \<open>
  C9. Whenever the identity short-circuit fires (the target count equals
  \<open>len(x_values)\<close>), \<open>signal_interpolate\<close> returns \<open>y_values\<close> before any kernel is
  built: for every method value and every library, also one that can build nothing, the
  result is \<open>y_values\<close> and never a construction error.
\<close>

theorem short_circuit_precedes_construction:
  assumes "length x_values = length y_values"
    and "short_circuit x_values x_new = Inr True"
  shows "signal_interpolate lib x_values y_values x_new method = Inr y_values
         \<and> (\<forall>e. signal_interpolate lib x_values y_values x_new method \<noteq> Inl (KernelError e))"
  by (simp add: signal_interpolate_equal_count [OF assms])

theorem short_circuit_precedes_construction_witness:
  "interp1d_kernel line_scipy [0, 1, 2] [3, 4, 5] (MStr ''no such kind'') = Inl ''unsupported kind''
   \<and> signal_interpolate line_scipy [0, 1, 2] [3, 4, 5] (XSeq [7, 8, 9]) (MStr ''no such kind'')
       = Inr [3, 4, 5]
   \<and> signal_interpolate line_scipy [0, 1, 2] [3, 4, 5] (XInt 3) MOther = Inr [3, 4, 5]"
  using short_circuit_precedes_construction
      [of "[0, 1, 2]" "[3, 4, 5]" "XSeq [7, 8, 9]" line_scipy "MStr ''no such kind''"]
    short_circuit_precedes_construction [of "[0, 1, 2]" "[3, 4, 5]" "XInt 3" line_scipy MOther]
  by (simp add: line_scipy_def)

section \<open>Kernel construction\<close>

text \<open>
  C8. When the call gets as far as building the kernel (equal lengths, no short-circuit)
  and the constructor for the requested method raises, \<open>signal_interpolate\<close> raises
  that same error: nothing is retried, replaced or returned in part.
\<close>

theorem construction_error_propagates:
  assumes "length x_values = length y_values"
    and "short_circuit x_values x_new = Inr False"
    and "(is_monotone_cubic method \<and> PchipInterpolator lib x_values y_values True = Inl e) \<or>
         (\<not> is_monotone_cubic method \<and> y_values \<noteq> [] \<and>
            interp1d_kernel lib x_values y_values method = Inl e)"
  shows "signal_interpolate lib x_values y_values x_new method = Inl (KernelError e)"
proof -
  have "interpolation_function lib x_values y_values method = Inl (KernelError e)"
    using assms(3)
  proof
    assume "is_monotone_cubic method \<and> PchipInterpolator lib x_values y_values True = Inl e"
    then show ?thesis by (simp add: interpolation_function_def)
  next
    assume "\<not> is_monotone_cubic method \<and> y_values \<noteq> [] \<and>
            interp1d_kernel lib x_values y_values method = Inl e"
    then show ?thesis by (simp add: interpolation_function_interp1d)
  qed
  then show ?thesis
    by (simp add: signal_interpolate_other_count [OF assms(1,2)])
qed

theorem construction_error_propagates_witness:
  "signal_interpolate line_scipy [0, 1, 2] [3, 4, 5] (XInt 10) (MStr ''monotone_cubic'')
     = Inl (KernelError ''unsupported number of samples'')
   \<and> signal_interpolate line_scipy [0, 1] [3, 4] (XSeq [0, 1 / 2, 1]) (MInt 5)
     = Inl (KernelError ''unsupported kind'')"
  using construction_error_propagates
      [of "[0, 1, 2]" "[3, 4, 5]" "XInt 10" "MStr ''monotone_cubic''" line_scipy
          "''unsupported number of samples''"]
    construction_error_propagates
      [of "[0, 1]" "[3, 4]" "XSeq [0, 1 / 2, 1]" "MInt 5" line_scipy "''unsupported kind''"]
  by (simp add: line_scipy_def two_point_line_def lower_def lower_char_def)






section \<open>The grid of an integer target\<close>

text \<open>
  C6 (amended). When \<open>x_new\<close> is an integer \<open>N\<close> different from \<open>len(x_values)\<close>,
  \<open>x_values\<close> is not empty and the interpolant has been built: for \<open>N \<ge> 2\<close> the
  interpolant is evaluated at exactly \<open>N\<close> evenly spaced positions, the first being
  \<open>x_values[0]\<close>, the last \<open>x_values[-1]\<close> and all of them between these two, with one
  output value per position in grid order; for \<open>N = 1\<close> the only position is
  \<open>x_values[0]\<close>; for \<open>N = 0\<close> the output is empty; a negative \<open>N\<close> is rejected by
  \<open>linspace\<close>.
\<close>

theorem integer_target_grid:
  assumes "length x_values = length y_values"
    and "x_values \<noteq> []"
    and "n \<noteq> int (length x_values)"
    and "interpolation_function lib x_values y_values method = Inr f"
  shows "(2 \<le> n \<longrightarrow>
            signal_interpolate lib x_values y_values (XInt n) method
              = Inr (map f (spec_even_grid (x_values ! 0) (last x_values) n))
          \<and> int (length (spec_even_grid (x_values ! 0) (last x_values) n)) = n
          \<and> spec_even_grid (x_values ! 0) (last x_values) n ! 0 = x_values ! 0
          \<and> last (spec_even_grid (x_values ! 0) (last x_values) n) = last x_values
          \<and> (\<forall>i<nat n.
                min (x_values ! 0) (last x_values) \<le> spec_even_grid (x_values ! 0) (last x_values) n ! i
              \<and> spec_even_grid (x_values ! 0) (last x_values) n ! i \<le> max (x_values ! 0) (last x_values)))
       \<and> (n = 1 \<longrightarrow>
            signal_interpolate lib x_values y_values (XInt n) method = Inr [f (x_values ! 0)])
       \<and> (n = 0 \<longrightarrow> signal_interpolate lib x_values y_values (XInt n) method = Inr [])
       \<and> (n < 0 \<longrightarrow>
            signal_interpolate lib x_values y_values (XInt n) method = Inl LinspaceError)"
proof -
  have sc: "short_circuit x_values (XInt n) = Inr False" using assms(3) by auto
  have run: "signal_interpolate lib x_values y_values (XInt n) method =
               (case linspace (x_values ! 0) (last x_values) n of
                  Inl e \<Rightarrow> Inl e
                | Inr grid \<Rightarrow> Inr (map f grid))"
    by (simp add: signal_interpolate_other_count [OF assms(1) sc] assms(4)
          py_first_nonempty [OF assms(2)] py_last_nonempty [OF assms(2)])
  have big: "signal_interpolate lib x_values y_values (XInt n) method
               = Inr (map f (spec_even_grid (x_values ! 0) (last x_values) n))" if "2 \<le> n"
    unfolding run by (simp add: linspace_spec_even_grid [OF that])
  have one: "signal_interpolate lib x_values y_values (XInt n) method = Inr [f (x_values ! 0)]"
    if "n = 1"
    unfolding run using that by (simp add: linspace_def)
  have zero: "signal_interpolate lib x_values y_values (XInt n) method = Inr []" if "n = 0"
    unfolding run using that by (simp add: linspace_def)
  have neg: "signal_interpolate lib x_values y_values (XInt n) method = Inl LinspaceError"
    if "n < 0"
    unfolding run using that by (simp add: linspace_def)
  show ?thesis
    using big one zero neg
    by (simp add: spec_even_grid_length spec_even_grid_first spec_even_grid_last
          spec_even_grid_within)
qed

theorem integer_target_grid_witness:
  "signal_interpolate line_scipy [0, 1] [3, 4] (XInt 3) (MStr ''linear'') = Inr [3, 7 / 2, 4]
   \<and> spec_even_grid 0 1 3 = [0, 1 / 2, 1]
   \<and> signal_interpolate line_scipy [0, 1] [3, 4] (XInt 1) (MStr ''linear'') = Inr [3]
   \<and> signal_interpolate line_scipy [0, 1] [3, 4] (XInt 0) (MStr ''linear'') = Inr []
   \<and> signal_interpolate line_scipy [0, 1] [3, 4] (XInt (- 2)) (MStr ''linear'')
       = Inl LinspaceError"
proof -
  define f :: "real \<Rightarrow> real" where
    "f = (\<lambda>p. if p < hd (sort [0, 1]) then 3
                else if last (sort [0, 1]) < p then 4
                else 3 + (p - 0) * ((4 - 3) / (1 - 0)))"
  have c: "interpolation_function line_scipy [0, 1] [3, 4] (MStr ''linear'') = Inr f"
    by (simp add: interpolation_function_def lower_def lower_char_def py_first_def py_last_def
          interp1d_def line_scipy_def two_point_line_def f_def fun_eq_iff)
  have g: "spec_even_grid 0 1 3 = [0, 1 / 2, 1]"
    by (simp add: spec_even_grid_def upt_rec)
  have v: "f 0 = 3" "f (1 / 2) = 7 / 2" "f 1 = 4"
    by (simp_all add: f_def)
  note w = integer_target_grid [of "[0, 1]" "[3, 4]" _ line_scipy "MStr ''linear''" f, OF _ _ _ c]
  from w [of 3] have "signal_interpolate line_scipy [0, 1] [3, 4] (XInt 3) (MStr ''linear'')
      = Inr [3, 7 / 2, 4]"
    by (simp add: g v)
  moreover from w [of 1] have "signal_interpolate line_scipy [0, 1] [3, 4] (XInt 1) (MStr ''linear'')
      = Inr [3]"
    by (simp add: v)
  moreover from w [of 0] have "signal_interpolate line_scipy [0, 1] [3, 4] (XInt 0) (MStr ''linear'')
      = Inr []"
    by simp
  moreover from w [of "- 2"] have "signal_interpolate line_scipy [0, 1] [3, 4] (XInt (- 2)) (MStr ''linear'')
      = Inl LinspaceError"
    by simp
  ultimately show ?thesis using g by simp
qed

text \<open>
  For \<open>N = 1\<close> the grid is the first sample position alone and does not reach the last
  one; for \<open>N = -1\<close> there is no output at all.
\<close>

theorem integer_target_grid_counterexample:
  "resolve_x_new [0, 1] (XInt 1) = Inr [0]
   \<and> last [0 :: real] \<noteq> last [0, 1]
   \<and> signal_interpolate line_scipy [0, 1] [3, 4] (XInt 1) (MStr ''linear'') = Inr [3]
   \<and> signal_interpolate line_scipy [0, 1] [3, 4] (XInt (- 1)) (MStr ''linear'')
       = Inl LinspaceError"
  by (simp add: signal_interpolate_def interpolation_function_def lower_def lower_char_def
        py_first_def py_last_def interp1d_def line_scipy_def two_point_line_def linspace_def)

section \<open>From period to rate\<close>

text \<open>
  C5. Whatever period array \<open>signal_period\<close> returns, \<open>signal_rate\<close> returns an array
  of the same length whose element \<open>i\<close> is 60 divided by element \<open>i\<close> of the period
  array, in the same order.
\<close>

theorem signal_rate_elementwise:
  assumes "signal_period peaks sampling_rate desired_length interpolation_method = Inr period"
  shows "\<exists>rate. signal_rate signal_period true_divide peaks sampling_rate desired_length
                  interpolation_method = Inr rate
           \<and> length rate = length period
           \<and> (\<forall>i<length period. rate ! i = true_divide 60 (period ! i))"
  using assms by (simp add: signal_rate_def)

theorem signal_rate_elementwise_witness:
  "\<exists>rate. signal_rate (\<lambda>peaks sr dl m. Inr [1, 1 / 2, 2 :: real]) (\<lambda>n p. real_of_int n / p)
              [0, 1000, 1500, 3500 :: int] 1000 None (MStr ''monotone_cubic'')
            = (Inr rate :: unit + real list)
     \<and> length rate = 3 \<and> rate ! 0 = 60 \<and> rate ! 1 = 120 \<and> rate ! 2 = 30"
proof -
  from signal_rate_elementwise
    [of "\<lambda>peaks sr dl m. Inr [1, 1 / 2, 2 :: real]" "[0, 1000, 1500, 3500 :: int]" 1000 None
        "MStr ''monotone_cubic''" "[1, 1 / 2, 2]" "\<lambda>n p. real_of_int n / p", OF refl]
  obtain rate where r: "signal_rate (\<lambda>peaks sr dl m. Inr [1, 1 / 2, 2 :: real]) (\<lambda>n p. real_of_int n / p)
              [0, 1000, 1500, 3500 :: int] 1000 None (MStr ''monotone_cubic'')
            = (Inr rate :: unit + real list)"
    and l: "length rate = length [1, 1 / 2, 2 :: real]"
    and e: "\<forall>i<length [1, 1 / 2, 2 :: real]. rate ! i = real_of_int 60 / ([1, 1 / 2, 2] ! i)"
    by blast
  from e have "rate ! 0 = 60" "rate ! 1 = 120" "rate ! 2 = 30"
    by (simp_all add: less_Suc_eq numeral_3_eq_3 numeral_2_eq_2)
  with r l show ?thesis by simp
qed

end
